theory Spec2Isabelle
  imports Complex_Main "HOL-Library.Multiset"
begin

section \<open>Vectors\<close>

text \<open>
  The program computes on \<^verbatim>\<open>float64\<close> and on \<^verbatim>\<open>vector.Vector\<close> (a slice of
  \<^verbatim>\<open>float64\<close>). Numbers are idealised as \<^typ>\<open>real\<close>: no rounding, no
  overflow and no NaN. The one place of the source where a NaN arises from finite
  inputs, the division in \<^verbatim>\<open>ClosestPoint\<close>, is a branch of the model.
  The vectors a node hands out have three components.
\<close>

datatype Vector = Vec (vx: real) (vy: real) (vz: real)

text \<open>\<^verbatim>\<open>Vector.Add\<close>, \<^verbatim>\<open>Vector.Sub\<close> and \<^verbatim>\<open>Vector.Scale\<close> of the vector
  library: each returns a new vector.\<close>

fun Add :: "Vector \<Rightarrow> Vector \<Rightarrow> Vector" where
  "Add (Vec a b c) (Vec d e f) = Vec (a + d) (b + e) (c + f)"

fun Sub :: "Vector \<Rightarrow> Vector \<Rightarrow> Vector" where
  "Sub (Vec a b c) (Vec d e f) = Vec (a - d) (b - e) (c - f)"

fun Scale :: "Vector \<Rightarrow> real \<Rightarrow> Vector" where
  "Scale (Vec a b c) s = Vec (a * s) (b * s) (c * s)"

text \<open>Modelled from the spec: \<^verbatim>\<open>dot\<close> is a helper of the package that the source
  files at hand call but do not define; the spec lists it among the geometry primitives
  (dot product of two 3-vectors).\<close>

fun dot :: "Vector \<Rightarrow> Vector \<Rightarrow> real" where
  "dot (Vec a b c) (Vec d e f) = a * d + b * e + c * f"

section \<open>Nodes and capsules\<close>

text \<open>Modelled from the spec: the type \<^verbatim>\<open>Node\<close> is declared outside the source files
  at hand. A node supplies its name, its local scale, and the world position, world
  rotation and world scale that the scene graph derives from the node and its
  ancestors. The record holds what each accessor returns; of the world rotation only
  the up vector is read (\<^verbatim>\<open>WorldRotation().Up()\<close>).\<close>

record Node =
  name :: string
  LocalScale :: Vector
  WorldScale :: Vector
  WorldPosition :: Vector
  WorldRotationUp :: Vector

text \<open>Modelled from the spec: \<^verbatim>\<open>BoundingSphere\<close> is declared outside the source files
  at hand: a node and a local radius.\<close>

record BoundingSphere =
  SphereNode :: "Node option"
  SphereRadius :: real

text \<open>The struct \<^verbatim>\<open>BoundingCapsule\<close>. The embedded \<^verbatim>\<open>*Node\<close> and the
  \<^verbatim>\<open>*BoundingSphere\<close> are pointers, \<^term>\<open>None\<close> when nil.\<close>

record BoundingCapsule =
  Node :: "Node option"
  Height :: real
  Radius :: real
  internalSphere :: "BoundingSphere option"

datatype error = Panic string | NilDereference

text \<open>Modelled from the spec: \<^verbatim>\<open>NewBoundingSphere\<close> is defined outside the source files
  at hand; it makes a sphere of the given radius on a new node. \<^verbatim>\<open>NewNode\<close>, also
  outside, is a parameter here and below.\<close>

definition NewBoundingSphere :: "(string \<Rightarrow> Node) \<Rightarrow> string \<Rightarrow> real \<Rightarrow> BoundingSphere" where
  "NewBoundingSphere NewNode nm radius =
     \<lparr>SphereNode = Some (NewNode nm), SphereRadius = radius\<rparr>"

definition NewBoundingCapsule ::
  "(string \<Rightarrow> Node) \<Rightarrow> string \<Rightarrow> real \<Rightarrow> real \<Rightarrow> BoundingCapsule" where
  "NewBoundingCapsule NewNode nm height radius =
     \<lparr>Node = Some (NewNode nm),
      Height = max radius height,
      Radius = radius,
      internalSphere = Some (NewBoundingSphere NewNode ''internal sphere'' 0)\<rparr>"

text \<open>\<^verbatim>\<open>Clone\<close> reads \<^verbatim>\<open>capsule.name\<close> through the embedded node pointer and calls
  \<^verbatim>\<open>Node.Clone\<close>, a parameter.\<close>

definition Clone ::
  "(string \<Rightarrow> Node) \<Rightarrow> (Node \<Rightarrow> Node) \<Rightarrow> BoundingCapsule \<Rightarrow> error + BoundingCapsule" where
  "Clone NewNode NodeClone capsule =
     (case Node capsule of
        None \<Rightarrow> Inl NilDereference
      | Some n \<Rightarrow>
          let clone = NewBoundingCapsule NewNode (name n) (Height capsule) (Radius capsule)
          in Inr (clone\<lparr>Node := Some (NodeClone n)\<rparr>))"

text \<open>\<^verbatim>\<open>AddChildren\<close> hands the capsule and the children to \<^verbatim>\<open>Node.addChildren\<close>, a
  parameter; it changes the node of the capsule and no field of the capsule.\<close>

definition AddChildren ::
  "(Node \<Rightarrow> 'i list \<Rightarrow> Node) \<Rightarrow> BoundingCapsule \<Rightarrow> 'i list \<Rightarrow> error + BoundingCapsule" where
  "AddChildren addChildren capsule children =
     (case Node capsule of
        None \<Rightarrow> Inl NilDereference
      | Some n \<Rightarrow> Inr (capsule\<lparr>Node := Some (addChildren n children)\<rparr>))"

text \<open>The capsules that the constructor and the methods of the type produce.\<close>

inductive reachable ::
  "(string \<Rightarrow> Node) \<Rightarrow> (Node \<Rightarrow> Node) \<Rightarrow> (Node \<Rightarrow> 'i list \<Rightarrow> Node) \<Rightarrow> BoundingCapsule \<Rightarrow> bool"
  for NewNode NodeClone addChildren where
  reach_new: "reachable NewNode NodeClone addChildren (NewBoundingCapsule NewNode nm height radius)"
| reach_clone: "reachable NewNode NodeClone addChildren c \<Longrightarrow>
     Clone NewNode NodeClone c = Inr c' \<Longrightarrow> reachable NewNode NodeClone addChildren c'"
| reach_add: "reachable NewNode NodeClone addChildren c \<Longrightarrow>
     AddChildren addChildren c children = Inr c' \<Longrightarrow> reachable NewNode NodeClone addChildren c'"

definition WorldRadius :: "BoundingCapsule \<Rightarrow> real" where
  "WorldRadius capsule =
     (let maxScale =
        (case Node capsule of
           None \<Rightarrow> 1
         | Some n \<Rightarrow>
             let scale = LocalScale n
             in max (max \<bar>vx scale\<bar> \<bar>vy scale\<bar>) \<bar>vz scale\<bar>)
      in Radius capsule * maxScale)"

definition lineTop :: "BoundingCapsule \<Rightarrow> error + Vector" where
  "lineTop capsule =
     (case Node capsule of
        None \<Rightarrow> Inl NilDereference
      | Some n \<Rightarrow>
          let up = WorldRotationUp n
          in Inr (Add (WorldPosition n) (Scale up (Height capsule / 2 - Radius capsule))))"

definition Top :: "BoundingCapsule \<Rightarrow> error + Vector" where
  "Top capsule =
     (case Node capsule of
        None \<Rightarrow> Inl NilDereference
      | Some n \<Rightarrow>
          let up = WorldRotationUp n
          in Inr (Add (WorldPosition n) (Scale up (Height capsule / 2))))"

definition lineBottom :: "BoundingCapsule \<Rightarrow> error + Vector" where
  "lineBottom capsule =
     (case Node capsule of
        None \<Rightarrow> Inl NilDereference
      | Some n \<Rightarrow>
          let up = WorldRotationUp n
          in Inr (Add (WorldPosition n) (Scale up (- Height capsule / 2 + Radius capsule))))"

definition Bottom :: "BoundingCapsule \<Rightarrow> error + Vector" where
  "Bottom capsule =
     (case Node capsule of
        None \<Rightarrow> Inl NilDereference
      | Some n \<Rightarrow>
          let up = WorldRotationUp n
          in Inr (Add (WorldPosition n) (Scale up (- Height capsule / 2))))"

text \<open>\<^verbatim>\<open>ClosestPoint\<close> divides by \<^verbatim>\<open>dot(segment, segment)\<close> with no guard. When
  that is zero the segment is the zero vector, the numerator is zero too, the quotient
  is NaN, \<^verbatim>\<open>math.Min\<close> and \<^verbatim>\<open>math.Max\<close> pass the NaN on and every component of
  the returned vector is NaN: the result \<^term>\<open>None\<close> below.\<close>

definition ClosestPoint :: "BoundingCapsule \<Rightarrow> Vector \<Rightarrow> error + Vector option" where
  "ClosestPoint capsule point =
     (case Node capsule of
        None \<Rightarrow> Inl NilDereference
      | Some n \<Rightarrow>
          let up = WorldRotationUp n;
              start = Add (WorldPosition n) (Scale up (- Height capsule / 2 + Radius capsule));
              end = Add (WorldPosition n) (Scale up (Height capsule / 2 - Radius capsule));
              segment = Sub end start
          in if dot segment segment = 0 then Inr None
             else
               let t = dot (Sub point start) segment / dot segment segment;
                   t = max (min t 1) 0
               in Inr (Some (Add start (Scale segment t))))"

section \<open>Pairwise collision\<close>

text \<open>
  \<^verbatim>\<open>Collision\<close> works on pointers: it compares the partner with the receiver by
  identity, and it changes the result of the sphere routine in place. Objects live in
  a store, and a pointer is an address.
\<close>

type_synonym addr = nat

text \<open>A value of the interface \<^verbatim>\<open>BoundingObject\<close>: its dynamic type and the pointer it
  holds. Any type that has the methods can be behind the interface, and the interface
  value itself can be nil.\<close>

datatype BoundingObject =
    CapsulePtr addr
  | SpherePtr addr
  | AABBPtr addr
  | TrianglesPtr addr
  | OtherPtr string addr
  | NilObject

text \<open>Modelled from the spec: \<^verbatim>\<open>Collision\<close> and \<^verbatim>\<open>Intersection\<close> are declared
  outside the source files at hand. A collision names the partner and holds a sequence
  of intersections; an intersection carries its MTV and its contact normal. The loop of
  the source assigns to a field of each element, so the elements are pointers. A
  \<^verbatim>\<open>vector.Vector\<close> field is a slice: the address of its backing array.\<close>

record Intersection =
  MTV :: addr
  Normal :: addr

record Collision =
  CollidedObject :: BoundingObject
  Intersections :: "addr list"

text \<open>The store: collisions and intersections by address (no entry: a nil or dangling
  pointer), the backing arrays of the vectors, the next free array address, and the
  rest of the scene (volumes and nodes), which \<^verbatim>\<open>Collision\<close> never touches itself.\<close>

record 'w heap =
  colls :: "addr \<rightharpoonup> Collision"
  inters :: "addr \<rightharpoonup> Intersection"
  arrays :: "addr \<Rightarrow> real list"
  next_array :: addr
  scene :: 'w

text \<open>\<^verbatim>\<open>Vector.Invert\<close> of the vector library scales a copy by \<open>-1\<close> and returns
  it; \<^verbatim>\<open>MutableVector.Invert\<close> (reached through \<^verbatim>\<open>vector.In\<close>) scales the backing
  array in place.\<close>

definition Vector_Invert :: "addr \<Rightarrow> 'w heap \<Rightarrow> addr \<times> 'w heap" where
  "Vector_Invert a h =
     (next_array h,
      h\<lparr>arrays := (arrays h)(next_array h := map (\<lambda>x. x * (- 1)) (arrays h a)),
        next_array := Suc (next_array h)\<rparr>)"

definition MutableVector_Invert :: "addr \<Rightarrow> 'w heap \<Rightarrow> 'w heap" where
  "MutableVector_Invert a h = h\<lparr>arrays := (arrays h)(a := map (\<lambda>x. x * (- 1)) (arrays h a))\<rparr>"

text \<open>The body of the loop over \<^verbatim>\<open>intersection.Intersections\<close>.\<close>

definition invert_intersection :: "addr \<Rightarrow> 'w heap \<Rightarrow> error + 'w heap" where
  "invert_intersection p h =
     (case inters h p of
        None \<Rightarrow> Inl NilDereference
      | Some isect \<Rightarrow>
          let (m, h1) = Vector_Invert (MTV isect) h;
              inter1 = isect\<lparr>MTV := m\<rparr>;
              h2 = h1\<lparr>inters := (inters h1)(p \<mapsto> inter1)\<rparr>
          in Inr (MutableVector_Invert (Normal inter1) h2))"

fun invert_all :: "addr list \<Rightarrow> 'w heap \<Rightarrow> error + 'w heap" where
  "invert_all [] h = Inr h"
| "invert_all (p # ps) h =
     (case invert_intersection p h of
        Inl e \<Rightarrow> Inl e
      | Inr h1 \<Rightarrow> invert_all ps h1)"

text \<open>The four pairwise routines are defined outside the source files at hand and are
  parameters. Each gets the store and two pointers, and panics or returns a collision
  pointer (\<^term>\<open>None\<close>: nil) and the store it leaves.\<close>

type_synonym 'w routine = "'w heap \<Rightarrow> addr \<Rightarrow> addr \<Rightarrow> error + (addr option \<times> 'w heap)"

record 'w routines =
  btCapsuleCapsule :: "'w routine"
  btSphereCapsule :: "'w routine"
  btCapsuleAABB :: "'w routine"
  btCapsuleTriangles :: "'w routine"

definition Collision ::
  "'w routines \<Rightarrow> 'w heap \<Rightarrow> addr \<Rightarrow> BoundingObject \<Rightarrow> error + (addr option \<times> 'w heap)" where
  "Collision bt h capsule other =
     (if other = CapsulePtr capsule then Inr (None, h)
      else
        (case other of
           CapsulePtr otherBounds \<Rightarrow> btCapsuleCapsule bt h capsule otherBounds
         | SpherePtr otherBounds \<Rightarrow>
             (case btSphereCapsule bt h otherBounds capsule of
                Inl e \<Rightarrow> Inl e
              | Inr (None, h1) \<Rightarrow> Inr (None, h1)
              | Inr (Some intersection, h1) \<Rightarrow>
                  (case colls h1 intersection of
                     None \<Rightarrow> Inl NilDereference
                   | Some c \<Rightarrow>
                       (case invert_all (Intersections c) h1 of
                          Inl e \<Rightarrow> Inl e
                        | Inr h2 \<Rightarrow>
                            (case colls h2 intersection of
                               None \<Rightarrow> Inl NilDereference
                             | Some c2 \<Rightarrow>
                                 Inr (Some intersection,
                                      h2\<lparr>colls := (colls h2)(intersection \<mapsto>
                                            c2\<lparr>CollidedObject := SpherePtr otherBounds\<rparr>)\<rparr>)))))
         | AABBPtr otherBounds \<Rightarrow> btCapsuleAABB bt h capsule otherBounds
         | TrianglesPtr otherBounds \<Rightarrow> btCapsuleTriangles bt h capsule otherBounds
         | _ \<Rightarrow> Inl (Panic ''Unimplemented bounds type'')))"

definition Colliding ::
  "'w routines \<Rightarrow> 'w heap \<Rightarrow> addr \<Rightarrow> BoundingObject \<Rightarrow> error + (bool \<times> 'w heap)" where
  "Colliding bt h capsule other =
     (case Collision bt h capsule other of
        Inl e \<Rightarrow> Inl e
      | Inr (r, h1) \<Rightarrow> Inr (r \<noteq> None, h1))"

text \<open>The partner types that the type switch of \<^verbatim>\<open>Collision\<close> has a case for.\<close>

definition supported :: "BoundingObject \<Rightarrow> bool" where
  "supported other =
     (case other of
        CapsulePtr _ \<Rightarrow> True
      | SpherePtr _ \<Rightarrow> True
      | AABBPtr _ \<Rightarrow> True
      | TrianglesPtr _ \<Rightarrow> True
      | _ \<Rightarrow> False)"

section \<open>The sweep query\<close>

text \<open>A slice that a function returns is nil (\<^term>\<open>None\<close>) or a sequence, possibly
  empty. \<^verbatim>\<open>CollisionTest\<close> hands its arguments to \<^verbatim>\<open>commonCollisionTest\<close> and
  returns what that returns.\<close>

type_synonym 'w sweep =
  "'w heap \<Rightarrow> BoundingObject \<Rightarrow> real \<Rightarrow> real \<Rightarrow> real \<Rightarrow> BoundingObject list
     \<Rightarrow> error + (addr list option \<times> 'w heap)"

definition CollisionTest ::
  "'w sweep \<Rightarrow> 'w heap \<Rightarrow> addr \<Rightarrow> real \<Rightarrow> real \<Rightarrow> real \<Rightarrow> BoundingObject list
     \<Rightarrow> error + (addr list option \<times> 'w heap)" where
  "CollisionTest commonCollisionTest h capsule dx dy dz others =
     commonCollisionTest h (CapsulePtr capsule) dx dy dz others"

text \<open>Modelled from the spec: \<^verbatim>\<open>commonCollisionTest\<close> is defined outside the source
  files at hand. By the spec it tests the volume, displaced by the delta, against each
  candidate with the pairwise test, skips the candidates identical to the volume,
  collects the collisions found into a sequence (empty, not nil, when there is none)
  and orders them by ascending distance from the volume's current position to the
  contact point. The pairwise test of the displaced volume and the distance of a
  collision are parameters: the first needs the absent pairwise routines, and the spec
  does not say how the contact point of a collision is computed.\<close>

type_synonym 'w displaced_test =
  "'w heap \<Rightarrow> BoundingObject \<Rightarrow> Vector \<Rightarrow> BoundingObject \<Rightarrow> error + (addr option \<times> 'w heap)"

fun collect_collisions ::
  "('w heap \<Rightarrow> BoundingObject \<Rightarrow> error + (addr option \<times> 'w heap)) \<Rightarrow> BoundingObject list
     \<Rightarrow> 'w heap \<Rightarrow> error + (addr list \<times> 'w heap)" where
  "collect_collisions test [] h = Inr ([], h)"
| "collect_collisions test (other # others) h =
     (case test h other of
        Inl e \<Rightarrow> Inl e
      | Inr (r, h1) \<Rightarrow>
          (case collect_collisions test others h1 of
             Inl e \<Rightarrow> Inl e
           | Inr (cs, h2) \<Rightarrow> Inr ((case r of None \<Rightarrow> cs | Some c \<Rightarrow> c # cs), h2)))"

definition commonCollisionTest ::
  "'w displaced_test \<Rightarrow> ('w heap \<Rightarrow> BoundingObject \<Rightarrow> addr \<Rightarrow> real) \<Rightarrow> 'w sweep" where
  "commonCollisionTest test distance h self dx dy dz others =
     (case collect_collisions (\<lambda>h1 other. test h1 self (Vec dx dy dz) other)
             (filter (\<lambda>other. other \<noteq> self) others) h of
        Inl e \<Rightarrow> Inl e
      | Inr (cs, h1) \<Rightarrow> Inr (Some (sort_key (distance h1 self) cs), h1))"

text \<open>No pairwise test of the displaced volume against a candidate panics, in whatever
  store it runs.\<close>

definition never_panics :: "'w displaced_test \<Rightarrow> BoundingObject \<Rightarrow> Vector \<Rightarrow> BoundingObject list \<Rightarrow> bool" where
  "never_panics test self delta others \<longleftrightarrow>
     (\<forall>other\<in>set others. \<forall>h1. \<exists>r h2. test h1 self delta other = Inr (r, h2))"

text \<open>No candidate other than the volume itself yields an intersection: its pairwise
  test returns nil, in whatever store it runs.\<close>

definition all_miss :: "'w displaced_test \<Rightarrow> BoundingObject \<Rightarrow> Vector \<Rightarrow> BoundingObject list \<Rightarrow> bool" where
  "all_miss test self delta others \<longleftrightarrow>
     (\<forall>other\<in>set others. other \<noteq> self \<longrightarrow>
        (\<forall>h1. \<exists>h2. test h1 self delta other = Inr (None, h2)))"

section \<open>Example scene\<close>

text \<open>A node with the identity rotation and no ancestors, a node whose parent is scaled
  by two, and a capsule of height 4 and radius 1 at \<open>(0, 3, 0)\<close>.\<close>

definition plain_node :: "string \<Rightarrow> Node" where
  "plain_node nm =
     \<lparr>name = nm, LocalScale = Vec 1 1 1, WorldScale = Vec 1 1 1,
      WorldPosition = Vec 0 0 0, WorldRotationUp = Vec 0 1 0\<rparr>"

definition child_node :: Node where
  "child_node =
     \<lparr>name = ''child'', LocalScale = Vec 1 1 1, WorldScale = Vec 2 2 2,
      WorldPosition = Vec 0 0 0, WorldRotationUp = Vec 0 1 0\<rparr>"

definition upright_capsule :: BoundingCapsule where
  "upright_capsule =
     \<lparr>Node = Some ((plain_node ''capsule'')\<lparr>WorldPosition := Vec 0 3 0\<rparr>),
      Height = 4, Radius = 1, internalSphere = None\<rparr>"

section \<open>Conditions on a store\<close>

text \<open>The intersection at \<open>p\<close> exists and its two vectors lie in allocated arrays.\<close>

definition allocated :: "'w heap \<Rightarrow> addr \<Rightarrow> bool" where
  "allocated h p =
     (case inters h p of
        None \<Rightarrow> False
      | Some i \<Rightarrow> MTV i < next_array h \<and> Normal i < next_array h)"

text \<open>The normal of the intersection at \<open>p\<close> shares its backing array with no vector of
  the intersection at \<open>q\<close>.\<close>

definition apart :: "'w heap \<Rightarrow> addr \<Rightarrow> addr \<Rightarrow> bool" where
  "apart h p q =
     (case (inters h p, inters h q) of
        (Some i, Some j) \<Rightarrow> Normal i \<noteq> Normal j \<and> Normal i \<noteq> MTV j
      | _ \<Rightarrow> True)"

text \<open>What a pairwise routine leaves when it builds its result afresh: the intersections
  of the collision are different objects, each exists, and no normal shares its array
  with a vector of another intersection.\<close>

definition unshared :: "'w heap \<Rightarrow> addr list \<Rightarrow> bool" where
  "unshared h ps \<longleftrightarrow>
     distinct ps \<and> (\<forall>p\<in>set ps. allocated h p)
     \<and> (\<forall>p\<in>set ps. \<forall>q\<in>set ps. p \<noteq> q \<longrightarrow> apart h p q)"

text \<open>Between two stores, the MTV and the normal of the intersection at \<open>p\<close> have
  changed sign, component by component.\<close>

definition flipped :: "'w heap \<Rightarrow> 'w heap \<Rightarrow> addr \<Rightarrow> bool" where
  "flipped h h' p =
     (case (inters h p, inters h' p) of
        (Some i, Some i') \<Rightarrow>
          arrays h' (MTV i') = map uminus (arrays h (MTV i))
          \<and> arrays h' (Normal i') = map uminus (arrays h (Normal i))
      | _ \<Rightarrow> False)"

text \<open>A pairwise routine that returns a collision only with at least one intersection
  in it.\<close>

definition reports_intersections :: "'w routine \<Rightarrow> bool" where
  "reports_intersections r \<longleftrightarrow>
     (\<forall>h a b p h1. r h a b = Inr (Some p, h1) \<longrightarrow>
        (\<exists>c. colls h1 p = Some c \<and> Intersections c \<noteq> []))"

section \<open>Example store and routines\<close>

text \<open>An empty store; a routine that finds nothing; a sphere routine that finds every
  sphere, allocating at the sphere's address a collision with one intersection whose two
  vectors are new arrays; a sphere routine that returns a collision with two
  intersections.\<close>

definition empty_heap :: "unit heap" where
  "empty_heap = \<lparr>colls = Map.empty, inters = Map.empty, arrays = (\<lambda>a. []), next_array = 0, scene = ()\<rparr>"

definition no_contact :: "unit routine" where
  "no_contact h a b = Inr (None, h)"

definition sphere_contact :: "unit routine" where
  "sphere_contact h sphere capsule =
     Inr (Some sphere,
          h\<lparr>colls := (colls h)(sphere \<mapsto>
                \<lparr>CollidedObject = CapsulePtr capsule, Intersections = [sphere]\<rparr>),
            inters := (inters h)(sphere \<mapsto>
                \<lparr>MTV = next_array h, Normal = Suc (next_array h)\<rparr>),
            arrays := (arrays h)(next_array h := [0, - 1, 0], Suc (next_array h) := [0, - 1, 0]),
            next_array := Suc (Suc (next_array h))\<rparr>)"

definition double_contact_heap :: "unit heap" where
  "double_contact_heap =
     \<lparr>colls = [0 \<mapsto> \<lparr>CollidedObject = NilObject, Intersections = [0, 1]\<rparr>],
      inters = [0 \<mapsto> \<lparr>MTV = 0, Normal = 1\<rparr>, 1 \<mapsto> \<lparr>MTV = 2, Normal = 3\<rparr>],
      arrays = (\<lambda>a. [])(0 := [0, - 1, 0], 1 := [0, - 1, 0], 2 := [1 / 2, 0, 0], 3 := [1, 0, 0]),
      next_array = 4, scene = ()\<rparr>"

definition double_contact :: "unit routine" where
  "double_contact h sphere capsule = Inr (Some 0, double_contact_heap)"

definition example_routines :: "unit routine \<Rightarrow> unit routines" where
  "example_routines r =
     \<lparr>btCapsuleCapsule = no_contact, btSphereCapsule = r,
      btCapsuleAABB = no_contact, btCapsuleTriangles = no_contact\<rparr>"

text \<open>A sweep on these routines: the pairwise test of a capsule is \<^verbatim>\<open>Collision\<close>, and
  the collision with the sphere at address \<open>k\<close> lies at distance \<open>k\<close>.\<close>

definition example_test :: "unit displaced_test" where
  "example_test h self delta other =
     (case self of
        CapsulePtr c \<Rightarrow> Collision (example_routines sphere_contact) h c other
      | _ \<Rightarrow> Inl NilDereference)"

definition example_distance :: "unit heap \<Rightarrow> BoundingObject \<Rightarrow> addr \<Rightarrow> real" where
  "example_distance h self c = real c"

section \<open>Properties of the capsule\<close>

lemma WorldRadius_local_scale:
  "Node capsule = Some n \<Longrightarrow>
   WorldRadius capsule =
     Radius capsule * max (max \<bar>vx (LocalScale n)\<bar> \<bar>vy (LocalScale n)\<bar>) \<bar>vz (LocalScale n)\<bar>"
  by (simp add: WorldRadius_def Let_def)

text \<open>C2. The claim takes the world radius to be the local radius times the largest
  absolute component of the node's world scale. The source reads \<^verbatim>\<open>LocalScale\<close>: on a
  node of local scale 1 whose world scale is 2, a capsule of radius 1 has
  \<^verbatim>\<open>WorldRadius\<close> 1, where the claim gives 2.\<close>

theorem WorldRadius_ignores_world_scale:
  "WorldRadius \<lparr>Node = Some child_node, Height = 4, Radius = 1, internalSphere = None\<rparr> = 1
   \<and> 1 * max (max \<bar>vx (WorldScale child_node)\<bar> \<bar>vy (WorldScale child_node)\<bar>)
             \<bar>vz (WorldScale child_node)\<bar> = (2::real)"
  by (simp add: WorldRadius_def child_node_def)

text \<open>C3. \<^verbatim>\<open>NewBoundingCapsule\<close> stores the larger of radius and height as the height
  and the radius as given, and every capsule that the constructor, \<^verbatim>\<open>Clone\<close> and
  \<^verbatim>\<open>AddChildren\<close> produce has a height of at least its radius.\<close>

theorem capsule_height_invariant:
  "Height (NewBoundingCapsule NewNode nm height radius) = max radius height
   \<and> Radius (NewBoundingCapsule NewNode nm height radius) = radius
   \<and> (reachable NewNode NodeClone addChildren c \<longrightarrow> Radius c \<le> Height c)"
proof -
  have inv: "Radius c \<le> Height c" if "reachable NewNode NodeClone addChildren c"
    using that
  proof (induction rule: reachable.induct)
    case (reach_new nm height radius)
    show ?case by (simp add: NewBoundingCapsule_def)
  next
    case (reach_clone c c')
    then show ?case
      by (auto simp: Clone_def NewBoundingCapsule_def Let_def split: option.splits)
  next
    case (reach_add c children c')
    then show ?case
      by (auto simp: AddChildren_def split: option.splits)
  qed
  show ?thesis using inv by (simp add: NewBoundingCapsule_def)
qed

theorem capsule_height_invariant_witness:
  "Clone plain_node id (NewBoundingCapsule plain_node ''c'' 1 3) =
     Inr \<lparr>Node = Some (plain_node ''c''), Height = 3, Radius = 3,
          internalSphere = Some (NewBoundingSphere plain_node ''internal sphere'' 0)\<rparr>
   \<and> reachable plain_node id (\<lambda>n (children :: nat list). n)
       \<lparr>Node = Some (plain_node ''c''), Height = 3, Radius = 3,
        internalSphere = Some (NewBoundingSphere plain_node ''internal sphere'' 0)\<rparr>
   \<and> Radius \<lparr>Node = Some (plain_node ''c''), Height = 3, Radius = 3,
        internalSphere = Some (NewBoundingSphere plain_node ''internal sphere'' 0)\<rparr>
     \<le> Height \<lparr>Node = Some (plain_node ''c''), Height = 3, Radius = 3,
        internalSphere = Some (NewBoundingSphere plain_node ''internal sphere'' 0)\<rparr>"
proof -
  let ?c = "\<lparr>Node = Some (plain_node ''c''), Height = 3, Radius = 3,
             internalSphere = Some (NewBoundingSphere plain_node ''internal sphere'' 0)\<rparr>"
  have cl: "Clone plain_node id (NewBoundingCapsule plain_node ''c'' 1 3) = Inr ?c"
    by (simp add: Clone_def NewBoundingCapsule_def plain_node_def)
  have "reachable plain_node id (\<lambda>n (children :: nat list). n)
          (NewBoundingCapsule plain_node ''c'' 1 3)"
    by (rule reach_new)
  then have r: "reachable plain_node id (\<lambda>n (children :: nat list). n) ?c"
    using cl by (rule reach_clone)
  show ?thesis
    using cl r
      capsule_height_invariant [of plain_node "''c''" 1 3 id "\<lambda>n (children :: nat list). n" ?c]
    by simp
qed

text \<open>C4. On a capsule with a node, \<^verbatim>\<open>lineBottom\<close> and \<^verbatim>\<open>lineTop\<close> are the world
  position moved by \<open>-(Height/2 - Radius)\<close> and by \<open>Height/2 - Radius\<close> along the world up
  vector, and \<^verbatim>\<open>Top\<close> and \<^verbatim>\<open>Bottom\<close> are the world position moved by \<open>Height/2\<close> and
  by \<open>-Height/2\<close> along it.\<close>

theorem capsule_endpoints:
  assumes "Node capsule = Some n"
    and "WorldPosition n = Vec px py pz"
    and "WorldRotationUp n = Vec ux uy uz"
  shows "lineBottom capsule =
           Inr (Vec (px + ux * (- (Height capsule / 2 - Radius capsule)))
                    (py + uy * (- (Height capsule / 2 - Radius capsule)))
                    (pz + uz * (- (Height capsule / 2 - Radius capsule))))
       \<and> lineTop capsule =
           Inr (Vec (px + ux * (Height capsule / 2 - Radius capsule))
                    (py + uy * (Height capsule / 2 - Radius capsule))
                    (pz + uz * (Height capsule / 2 - Radius capsule)))
       \<and> Top capsule =
           Inr (Vec (px + ux * (Height capsule / 2))
                    (py + uy * (Height capsule / 2))
                    (pz + uz * (Height capsule / 2)))
       \<and> Bottom capsule =
           Inr (Vec (px + ux * (- (Height capsule / 2)))
                    (py + uy * (- (Height capsule / 2)))
                    (pz + uz * (- (Height capsule / 2))))"
  using assms by (simp add: lineBottom_def lineTop_def Top_def Bottom_def)

theorem capsule_endpoints_witness:
  "Node upright_capsule = Some ((plain_node ''capsule'')\<lparr>WorldPosition := Vec 0 3 0\<rparr>)
   \<and> lineBottom upright_capsule = Inr (Vec 0 2 0)
   \<and> lineTop upright_capsule = Inr (Vec 0 4 0)
   \<and> Top upright_capsule = Inr (Vec 0 5 0)
   \<and> Bottom upright_capsule = Inr (Vec 0 1 0)"
  using capsule_endpoints [of upright_capsule
      "(plain_node ''capsule'')\<lparr>WorldPosition := Vec 0 3 0\<rparr>" 0 3 0 0 1 0]
  by (simp add: upright_capsule_def plain_node_def)

lemma dot_self_zero: "dot v v = 0 \<longleftrightarrow> v = Vec 0 0 0"
proof (cases v)
  case (Vec a b c)
  have "a * a + b * b + c * c = 0 \<longleftrightarrow> a = 0 \<and> b = 0 \<and> c = 0"
    by (metis add_nonneg_eq_0_iff mult_eq_0_iff zero_le_square add_nonneg_nonneg)
  with Vec show ?thesis by simp
qed

lemma Sub_zero_iff: "Sub a b = Vec 0 0 0 \<longleftrightarrow> a = b"
  by (cases a; cases b) simp

text \<open>The central segment has length zero exactly when the height is twice the radius
  (or the up vector is zero, which no rotation gives).\<close>

lemma segment_nonzero_iff:
  assumes "Node capsule = Some n"
  shows "lineBottom capsule \<noteq> lineTop capsule \<longleftrightarrow>
         Height capsule \<noteq> 2 * Radius capsule \<and> WorldRotationUp n \<noteq> Vec 0 0 0"
proof (cases "WorldRotationUp n"; cases "WorldPosition n")
  fix a b c p q r
  assume "WorldRotationUp n = Vec a b c" "WorldPosition n = Vec p q r"
  then show ?thesis using assms
    by (auto simp: lineBottom_def lineTop_def field_simps)
qed

text \<open>On a segment of length zero the division is \<open>0/0\<close> and the result is NaN.\<close>

lemma ClosestPoint_degenerate:
  assumes "lineBottom capsule = Inr start" and "lineTop capsule = Inr start"
  shows "ClosestPoint capsule point = Inr None"
proof -
  from assms(1) obtain n where n: "Node capsule = Some n"
    by (auto simp: lineBottom_def split: option.splits)
  let ?S = "Add (WorldPosition n) (Scale (WorldRotationUp n) (- Height capsule / 2 + Radius capsule))"
  let ?E = "Add (WorldPosition n) (Scale (WorldRotationUp n) (Height capsule / 2 - Radius capsule))"
  have "?S = start" using assms(1) n by (simp add: lineBottom_def)
  moreover have "?E = start" using assms(2) n by (simp add: lineTop_def)
  ultimately have "Sub ?E ?S = Vec 0 0 0" by (simp add: Sub_zero_iff)
  then have "dot (Sub ?E ?S) (Sub ?E ?S) = 0" by simp
  then show ?thesis
    using n by (simp add: ClosestPoint_def Let_def)
qed

text \<open>C10. When the central segment from \<^verbatim>\<open>lineBottom\<close> to \<^verbatim>\<open>lineTop\<close> has
  non-zero length, \<^verbatim>\<open>ClosestPoint\<close> returns \<open>start + t (end - start)\<close>, where \<open>t\<close> is
  the projection parameter of the point clamped to \<open>[0, 1]\<close>: a point of the segment.\<close>

theorem ClosestPoint_on_segment:
  assumes "lineBottom capsule = Inr start" and "lineTop capsule = Inr end"
    and "start \<noteq> end"
  shows "\<exists>t. 0 \<le> t \<and> t \<le> 1
           \<and> t = max (min (dot (Sub point start) (Sub end start)
                              / dot (Sub end start) (Sub end start)) 1) 0
           \<and> ClosestPoint capsule point = Inr (Some (Add start (Scale (Sub end start) t)))"
proof -
  from assms(1) obtain n where n: "Node capsule = Some n"
    by (auto simp: lineBottom_def split: option.splits)
  have s: "start = Add (WorldPosition n)
                     (Scale (WorldRotationUp n) (- Height capsule / 2 + Radius capsule))"
    using assms(1) n by (simp add: lineBottom_def)
  have e: "end = Add (WorldPosition n)
                   (Scale (WorldRotationUp n) (Height capsule / 2 - Radius capsule))"
    using assms(2) n by (simp add: lineTop_def)
  have nz: "dot (Sub end start) (Sub end start) \<noteq> 0"
    using assms(3) by (auto simp: dot_self_zero Sub_zero_iff)
  let ?t = "max (min (dot (Sub point start) (Sub end start)
                       / dot (Sub end start) (Sub end start)) 1) 0"
  have "ClosestPoint capsule point = Inr (Some (Add start (Scale (Sub end start) ?t)))"
    using n nz unfolding ClosestPoint_def s e by (simp add: Let_def)
  moreover have "0 \<le> ?t" "?t \<le> 1" by simp_all
  ultimately show ?thesis by blast
qed

theorem ClosestPoint_on_segment_witness:
  "lineBottom upright_capsule = Inr (Vec 0 2 0)
   \<and> lineTop upright_capsule = Inr (Vec 0 4 0)
   \<and> Vec 0 2 0 \<noteq> Vec 0 4 0
   \<and> ClosestPoint upright_capsule (Vec 5 (7/2) 0) = Inr (Some (Vec 0 (7/2) 0))"
proof -
  have b: "lineBottom upright_capsule = Inr (Vec 0 2 0)"
    by (simp add: lineBottom_def upright_capsule_def plain_node_def)
  have t: "lineTop upright_capsule = Inr (Vec 0 4 0)"
    by (simp add: lineTop_def upright_capsule_def plain_node_def)
  have d: "Vec 0 2 0 \<noteq> Vec 0 4 0" by simp
  from ClosestPoint_on_segment [OF b t d, of "Vec 5 (7/2) 0"]
  obtain u where
    u: "u = max (min (dot (Sub (Vec 5 (7/2) 0) (Vec 0 2 0)) (Sub (Vec 0 4 0) (Vec 0 2 0))
                      / dot (Sub (Vec 0 4 0) (Vec 0 2 0)) (Sub (Vec 0 4 0) (Vec 0 2 0))) 1) 0"
    and cp: "ClosestPoint upright_capsule (Vec 5 (7/2) 0) =
               Inr (Some (Add (Vec 0 2 0) (Scale (Sub (Vec 0 4 0) (Vec 0 2 0)) u)))"
    by blast
  have "u = 3/4" using u by simp
  then show ?thesis using b t cp by simp
qed

section \<open>Properties of the pairwise test\<close>

text \<open>C6. A capsule tested against itself: \<^verbatim>\<open>Collision\<close> returns nil, whatever the
  store holds and whatever the pairwise routines are.\<close>

theorem Collision_self:
  "Collision bt h capsule (CapsulePtr capsule) = Inr (None, h)"
  by (simp add: Collision_def)

text \<open>C7. A partner whose type is none of the four supported ones (a nil interface
  included) makes \<^verbatim>\<open>Collision\<close> panic.\<close>

theorem Collision_unsupported_panics:
  "\<not> supported other \<Longrightarrow>
   Collision bt h capsule other = Inl (Panic ''Unimplemented bounds type'')"
  by (cases other) (simp_all add: Collision_def supported_def)

theorem Collision_unsupported_panics_witness:
  "\<not> supported (OtherPtr ''*BoundingPlane'' 7)
   \<and> Collision (example_routines no_contact) empty_heap 1 (OtherPtr ''*BoundingPlane'' 7)
       = Inl (Panic ''Unimplemented bounds type'')
   \<and> \<not> supported NilObject
   \<and> Collision (example_routines no_contact) empty_heap 1 NilObject
       = Inl (Panic ''Unimplemented bounds type'')"
  using Collision_unsupported_panics [of "OtherPtr ''*BoundingPlane'' 7"
      "example_routines no_contact" empty_heap 1]
    Collision_unsupported_panics [of NilObject "example_routines no_contact" empty_heap 1]
  by (simp add: supported_def)

lemma times_minus_one: "(\<lambda>x::real. x * (- 1)) = uminus"
  by (rule ext) simp

text \<open>One pass of the loop body: the MTV field points to a new array holding the negated
  MTV, the array of the normal is negated in place, and nothing else changes.\<close>

lemma invert_intersection_step:
  assumes "inters h p = Some i" and "MTV i < next_array h" and "Normal i < next_array h"
  shows "\<exists>h'. invert_intersection p h = Inr h'
           \<and> inters h' = (inters h)(p \<mapsto> i\<lparr>MTV := next_array h\<rparr>)
           \<and> next_array h' = Suc (next_array h)
           \<and> colls h' = colls h
           \<and> arrays h' (next_array h) = map uminus (arrays h (MTV i))
           \<and> arrays h' (Normal i) = map uminus (arrays h (Normal i))
           \<and> (\<forall>a. a \<noteq> next_array h \<longrightarrow> a \<noteq> Normal i \<longrightarrow> arrays h' a = arrays h a)"
  using assms
  by (simp add: invert_intersection_def Vector_Invert_def MutableVector_Invert_def times_minus_one)

lemma invert_all_colls: "invert_all ps h = Inr h' \<Longrightarrow> colls h' = colls h"
proof (induction ps arbitrary: h)
  case Nil
  then show ?case by simp
next
  case (Cons p ps)
  then show ?case
    by (auto simp: invert_intersection_def Vector_Invert_def MutableVector_Invert_def Let_def
             split: sum.splits option.splits)
qed

text \<open>The loop over the intersections of a collision built afresh terminates without a
  panic, flips every intersection, and leaves the collisions, the other intersections
  and the other arrays as they were.\<close>

lemma invert_all_flips:
  assumes "unshared h ps"
  shows "\<exists>h'. invert_all ps h = Inr h'
           \<and> colls h' = colls h
           \<and> next_array h \<le> next_array h'
           \<and> (\<forall>q. q \<notin> set ps \<longrightarrow> inters h' q = inters h q)
           \<and> (\<forall>a. a < next_array h \<longrightarrow>
                  (\<forall>q\<in>set ps. \<forall>j. inters h q = Some j \<longrightarrow> a \<noteq> Normal j) \<longrightarrow>
                  arrays h' a = arrays h a)
           \<and> (\<forall>q\<in>set ps. flipped h h' q)"
  using assms
proof (induction ps arbitrary: h)
  case Nil
  then show ?case by simp
next
  case (Cons p ps)
  from Cons.prems obtain i where i: "inters h p = Some i"
    and im: "MTV i < next_array h" and inn: "Normal i < next_array h"
    by (auto simp: unshared_def allocated_def split: option.splits)
  from invert_intersection_step [OF i im inn] obtain h1 where
    step: "invert_intersection p h = Inr h1"
    and int1: "inters h1 = (inters h)(p \<mapsto> i\<lparr>MTV := next_array h\<rparr>)"
    and nx1: "next_array h1 = Suc (next_array h)"
    and co1: "colls h1 = colls h"
    and am1: "arrays h1 (next_array h) = map uminus (arrays h (MTV i))"
    and an1: "arrays h1 (Normal i) = map uminus (arrays h (Normal i))"
    and fr1: "\<And>a. a \<noteq> next_array h \<Longrightarrow> a \<noteq> Normal i \<Longrightarrow> arrays h1 a = arrays h a"
    by blast
  have pn: "p \<notin> set ps" and dist: "distinct ps" using Cons.prems by (auto simp: unshared_def)
  have same: "inters h1 q = inters h q" if "q \<in> set ps" for q
    using that pn int1 by auto
  have alloc: "allocated h q" if "q \<in> set ps" for q
    using that Cons.prems by (auto simp: unshared_def)
  have ap: "apart h q r" if "q \<in> set (p # ps)" "r \<in> set (p # ps)" "q \<noteq> r" for q r
    using that Cons.prems unfolding unshared_def by blast
  have un1: "unshared h1 ps"
    unfolding unshared_def
  proof (intro conjI ballI impI)
    show "distinct ps" by (rule dist)
  next
    fix q assume "q \<in> set ps"
    then show "allocated h1 q"
      using alloc [of q] same [of q] nx1
      by (auto simp: allocated_def split: option.splits)
  next
    fix q r assume "q \<in> set ps" "r \<in> set ps" "q \<noteq> r"
    then show "apart h1 q r"
      using ap [of q r] same [of q] same [of r] by (simp add: apart_def)
  qed
  from Cons.IH [OF un1] obtain h' where
    all: "invert_all ps h1 = Inr h'"
    and co: "colls h' = colls h1"
    and nx: "next_array h1 \<le> next_array h'"
    and fri: "\<And>q. q \<notin> set ps \<Longrightarrow> inters h' q = inters h1 q"
    and fra: "\<And>a. a < next_array h1 \<Longrightarrow>
               (\<forall>q\<in>set ps. \<forall>j. inters h1 q = Some j \<longrightarrow> a \<noteq> Normal j) \<Longrightarrow> arrays h' a = arrays h1 a"
    and fl: "\<And>q. q \<in> set ps \<Longrightarrow> flipped h1 h' q"
    by blast
  have tailN: "Normal j < next_array h \<and> MTV j < next_array h \<and> Normal i \<noteq> Normal j \<and> Normal i \<noteq> MTV j"
    if "q \<in> set ps" "inters h q = Some j" for q j
  proof -
    have "q \<noteq> p" using that pn by auto
    then have "apart h p q" using ap [of p q] that by auto
    then show ?thesis using alloc [of q] that i by (simp add: apart_def allocated_def)
  qed
  have tailN1: "Normal j < next_array h \<and> Normal i \<noteq> Normal j"
    if "q \<in> set ps" "inters h1 q = Some j" for q j
    using tailN [of q j] that same [of q] by simp
  have "invert_all (p # ps) h = Inr h'" using step all by simp
  moreover have "colls h' = colls h" using co co1 by simp
  moreover have "next_array h \<le> next_array h'" using nx nx1 by simp
  moreover have "inters h' q = inters h q" if "q \<notin> set (p # ps)" for q
    using that fri [of q] int1 by simp
  moreover have "arrays h' a = arrays h a"
    if a: "a < next_array h" and nn: "\<forall>q\<in>set (p # ps). \<forall>j. inters h q = Some j \<longrightarrow> a \<noteq> Normal j" for a
  proof -
    have "a \<noteq> Normal i" using nn i by auto
    then have "arrays h1 a = arrays h a" using fr1 [of a] a by simp
    moreover have "arrays h' a = arrays h1 a"
    proof (rule fra)
      show "a < next_array h1" using a nx1 by simp
      show "\<forall>q\<in>set ps. \<forall>j. inters h1 q = Some j \<longrightarrow> a \<noteq> Normal j"
        using nn same by auto
    qed
    ultimately show ?thesis by simp
  qed
  moreover have "flipped h h' q" if q: "q \<in> set (p # ps)" for q
  proof (cases "q = p")
    case True
    have ip: "inters h' p = Some (i\<lparr>MTV := next_array h\<rparr>)"
      using fri [of p] pn int1 by simp
    have "arrays h' (next_array h) = arrays h1 (next_array h)"
    proof (rule fra)
      show "next_array h < next_array h1" using nx1 by simp
      show "\<forall>q\<in>set ps. \<forall>j. inters h1 q = Some j \<longrightarrow> next_array h \<noteq> Normal j"
        using tailN1 by fastforce
    qed
    moreover have "arrays h' (Normal i) = arrays h1 (Normal i)"
    proof (rule fra)
      show "Normal i < next_array h1" using inn nx1 by simp
      show "\<forall>q\<in>set ps. \<forall>j. inters h1 q = Some j \<longrightarrow> Normal i \<noteq> Normal j"
        using tailN1 by blast
    qed
    ultimately show ?thesis
      using True i ip am1 an1 by (simp add: flipped_def)
  next
    case False
    then have qs: "q \<in> set ps" using q by simp
    from alloc [OF qs] obtain j where j: "inters h q = Some j"
      by (auto simp: allocated_def split: option.splits)
    have j1: "inters h1 q = Some j" using same [OF qs] j by simp
    from tailN [OF qs j] have
      "arrays h1 (MTV j) = arrays h (MTV j)" "arrays h1 (Normal j) = arrays h (Normal j)"
      using fr1 [of "MTV j"] fr1 [of "Normal j"] by auto
    then show ?thesis
      using fl [OF qs] j j1 by (auto simp: flipped_def split: option.splits)
  qed
  ultimately show ?case by blast
qed

text \<open>C5. With a sphere as partner, \<^verbatim>\<open>Collision\<close> calls the sphere-capsule routine on
  (sphere, capsule). A panic and a nil result are passed on. When the routine returns a
  collision built afresh, \<^verbatim>\<open>Collision\<close> returns the same collision; in the store it
  leaves, the collided object is the sphere, the sequence of intersections is the same,
  and the MTV and the normal of every intersection have changed sign.\<close>

theorem Collision_sphere_inverted:
  "(btSphereCapsule bt h sphere capsule = Inl e \<longrightarrow>
      Collision bt h capsule (SpherePtr sphere) = Inl e)
   \<and> (btSphereCapsule bt h sphere capsule = Inr (None, h1) \<longrightarrow>
      Collision bt h capsule (SpherePtr sphere) = Inr (None, h1))
   \<and> (btSphereCapsule bt h sphere capsule = Inr (Some p, h1) \<and> colls h1 p = Some c
        \<and> unshared h1 (Intersections c) \<longrightarrow>
      (\<exists>h2. Collision bt h capsule (SpherePtr sphere) = Inr (Some p, h2)
          \<and> colls h2 p = Some (c\<lparr>CollidedObject := SpherePtr sphere\<rparr>)
          \<and> (\<forall>q\<in>set (Intersections c). flipped h1 h2 q)))"
proof (intro conjI impI)
  assume "btSphereCapsule bt h sphere capsule = Inl e"
  then show "Collision bt h capsule (SpherePtr sphere) = Inl e"
    by (simp add: Collision_def)
next
  assume "btSphereCapsule bt h sphere capsule = Inr (None, h1)"
  then show "Collision bt h capsule (SpherePtr sphere) = Inr (None, h1)"
    by (simp add: Collision_def)
next
  assume a: "btSphereCapsule bt h sphere capsule = Inr (Some p, h1) \<and> colls h1 p = Some c
        \<and> unshared h1 (Intersections c)"
  from invert_all_flips [of h1 "Intersections c"] a obtain h' where
    all: "invert_all (Intersections c) h1 = Inr h'"
    and co: "colls h' = colls h1"
    and fl: "\<forall>q\<in>set (Intersections c). flipped h1 h' q"
    by blast
  let ?h2 = "h'\<lparr>colls := (colls h')(p \<mapsto> c\<lparr>CollidedObject := SpherePtr sphere\<rparr>)\<rparr>"
  have "Collision bt h capsule (SpherePtr sphere) = Inr (Some p, ?h2)"
    using a all co by (simp add: Collision_def)
  moreover have "colls ?h2 p = Some (c\<lparr>CollidedObject := SpherePtr sphere\<rparr>)" by simp
  moreover have "\<forall>q\<in>set (Intersections c). flipped h1 ?h2 q"
    using fl by (auto simp: flipped_def split: option.splits)
  ultimately show "\<exists>h2. Collision bt h capsule (SpherePtr sphere) = Inr (Some p, h2)
          \<and> colls h2 p = Some (c\<lparr>CollidedObject := SpherePtr sphere\<rparr>)
          \<and> (\<forall>q\<in>set (Intersections c). flipped h1 h2 q)"
    by blast
qed

theorem Collision_sphere_inverted_witness:
  "btSphereCapsule (example_routines double_contact) empty_heap 2 1 = Inr (Some 0, double_contact_heap)
   \<and> colls double_contact_heap 0 = Some \<lparr>CollidedObject = NilObject, Intersections = [0, 1]\<rparr>
   \<and> unshared double_contact_heap [0, 1]
   \<and> (\<exists>h2. Collision (example_routines double_contact) empty_heap 1 (SpherePtr 2) = Inr (Some 0, h2)
          \<and> colls h2 0 = Some \<lparr>CollidedObject = SpherePtr 2, Intersections = [0, 1]\<rparr>
          \<and> flipped double_contact_heap h2 0 \<and> flipped double_contact_heap h2 1)
   \<and> btSphereCapsule (example_routines no_contact) empty_heap 2 1 = Inr (None, empty_heap)
   \<and> Collision (example_routines no_contact) empty_heap 1 (SpherePtr 2) = Inr (None, empty_heap)"
proof -
  have n: "btSphereCapsule (example_routines no_contact) empty_heap 2 1 = Inr (None, empty_heap)"
    by (simp add: example_routines_def no_contact_def)
  have r: "btSphereCapsule (example_routines double_contact) empty_heap 2 1 = Inr (Some 0, double_contact_heap)"
    by (simp add: example_routines_def double_contact_def)
  have c: "colls double_contact_heap 0 = Some \<lparr>CollidedObject = NilObject, Intersections = [0, 1]\<rparr>"
    by (simp add: double_contact_heap_def)
  have u: "unshared double_contact_heap [0, 1]"
    by (simp add: unshared_def allocated_def apart_def double_contact_heap_def)
  show ?thesis
    using r c u n
      Collision_sphere_inverted [of "example_routines double_contact" empty_heap 2 1 NilDereference
        double_contact_heap 0 "\<lparr>CollidedObject = NilObject, Intersections = [0, 1]\<rparr>"]
      Collision_sphere_inverted [of "example_routines no_contact" empty_heap 2 1 NilDereference
        empty_heap 0 "\<lparr>CollidedObject = NilObject, Intersections = []\<rparr>"]
    by simp
qed

lemma Collision_reports: "Collision bt h capsule other = Inr (Some p, h1) \<Longrightarrow>
   reports_intersections (btCapsuleCapsule bt) \<Longrightarrow> reports_intersections (btSphereCapsule bt) \<Longrightarrow>
   reports_intersections (btCapsuleAABB bt) \<Longrightarrow> reports_intersections (btCapsuleTriangles bt) \<Longrightarrow>
   \<exists>c. colls h1 p = Some c \<and> Intersections c \<noteq> []"
proof (cases other)
  case (SpherePtr s)
  assume res: "Collision bt h capsule other = Inr (Some p, h1)"
    and rep: "reports_intersections (btSphereCapsule bt)"
  from res SpherePtr obtain h0 c h' c2 where
    a: "btSphereCapsule bt h s capsule = Inr (Some p, h0)" and b: "colls h0 p = Some c"
    and i: "invert_all (Intersections c) h0 = Inr h'" and c2: "colls h' p = Some c2"
    and h1: "h1 = h'\<lparr>colls := (colls h')(p \<mapsto> c2\<lparr>CollidedObject := SpherePtr s\<rparr>)\<rparr>"
    by (auto simp: Collision_def split: sum.splits option.splits prod.splits)
  have "colls h' = colls h0" using i by (rule invert_all_colls)
  then have "c2 = c" using b c2 by simp
  moreover have "Intersections c \<noteq> []"
  proof -
    from rep have "\<exists>c. colls h0 p = Some c \<and> Intersections c \<noteq> []"
      unfolding reports_intersections_def using a by blast
    then show ?thesis using b by simp
  qed
  ultimately show ?thesis using h1 by simp
qed (auto simp: Collision_def reports_intersections_def split: if_splits)

lemma reports_no_contact: "reports_intersections no_contact"
  by (simp add: reports_intersections_def no_contact_def)

lemma reports_sphere_contact: "reports_intersections sphere_contact"
  by (auto simp: reports_intersections_def sphere_contact_def)

text \<open>C9. \<^verbatim>\<open>Colliding\<close> panics exactly when \<^verbatim>\<open>Collision\<close> does, and otherwise
  returns whether \<^verbatim>\<open>Collision\<close> returned a collision rather than nil. When the pairwise
  routines return a collision only with an intersection in it, \<^verbatim>\<open>Colliding\<close> is true
  exactly when the collision that \<^verbatim>\<open>Collision\<close> returns has at least one
  intersection.\<close>

theorem Colliding_iff_Collision:
  assumes "reports_intersections (btCapsuleCapsule bt)"
    and "reports_intersections (btSphereCapsule bt)"
    and "reports_intersections (btCapsuleAABB bt)"
    and "reports_intersections (btCapsuleTriangles bt)"
  shows "(\<forall>e. Colliding bt h capsule other = Inl e \<longleftrightarrow> Collision bt h capsule other = Inl e)
       \<and> (\<forall>b h1. Colliding bt h capsule other = Inr (b, h1) \<longleftrightarrow>
            (\<exists>r. Collision bt h capsule other = Inr (r, h1) \<and> b = (r \<noteq> None)))
       \<and> (\<forall>h1. Colliding bt h capsule other = Inr (True, h1) \<longleftrightarrow>
            (\<exists>p c. Collision bt h capsule other = Inr (Some p, h1)
                  \<and> colls h1 p = Some c \<and> Intersections c \<noteq> []))"
proof (intro conjI allI)
  fix e show "Colliding bt h capsule other = Inl e \<longleftrightarrow> Collision bt h capsule other = Inl e"
    by (auto simp: Colliding_def split: sum.splits prod.splits)
next
  fix b h1
  show "Colliding bt h capsule other = Inr (b, h1) \<longleftrightarrow>
            (\<exists>r. Collision bt h capsule other = Inr (r, h1) \<and> b = (r \<noteq> None))"
    by (auto simp: Colliding_def split: sum.splits prod.splits)
next
  fix h1
  have "Colliding bt h capsule other = Inr (True, h1) \<longleftrightarrow>
          (\<exists>p. Collision bt h capsule other = Inr (Some p, h1))"
    by (auto simp: Colliding_def split: sum.splits prod.splits)
  then show "Colliding bt h capsule other = Inr (True, h1) \<longleftrightarrow>
            (\<exists>p c. Collision bt h capsule other = Inr (Some p, h1)
                  \<and> colls h1 p = Some c \<and> Intersections c \<noteq> [])"
    using Collision_reports [OF _ assms] by blast
qed

theorem Colliding_iff_Collision_witness:
  "reports_intersections (btCapsuleCapsule (example_routines sphere_contact))
   \<and> reports_intersections (btSphereCapsule (example_routines sphere_contact))
   \<and> reports_intersections (btCapsuleAABB (example_routines sphere_contact))
   \<and> reports_intersections (btCapsuleTriangles (example_routines sphere_contact))
   \<and> (\<exists>h1 c. Colliding (example_routines sphere_contact) empty_heap 1 (SpherePtr 2) = Inr (True, h1)
        \<and> Collision (example_routines sphere_contact) empty_heap 1 (SpherePtr 2) = Inr (Some 2, h1)
        \<and> colls h1 2 = Some c \<and> Intersections c \<noteq> [])
   \<and> Colliding (example_routines sphere_contact) empty_heap 1 (AABBPtr 3) = Inr (False, empty_heap)
   \<and> Collision (example_routines sphere_contact) empty_heap 1 (AABBPtr 3) = Inr (None, empty_heap)"
proof -
  have a: "reports_intersections (btCapsuleCapsule (example_routines sphere_contact))"
    and b: "reports_intersections (btSphereCapsule (example_routines sphere_contact))"
    and c: "reports_intersections (btCapsuleAABB (example_routines sphere_contact))"
    and d: "reports_intersections (btCapsuleTriangles (example_routines sphere_contact))"
    by (simp_all add: example_routines_def reports_no_contact reports_sphere_contact)
  have s: "\<exists>h1. Collision (example_routines sphere_contact) empty_heap 1 (SpherePtr 2) = Inr (Some 2, h1)"
    by (simp add: Collision_def example_routines_def sphere_contact_def empty_heap_def
          invert_intersection_def Vector_Invert_def MutableVector_Invert_def)
  have n: "Collision (example_routines sphere_contact) empty_heap 1 (AABBPtr 3) = Inr (None, empty_heap)"
    by (simp add: Collision_def example_routines_def no_contact_def)
  from s obtain h1 where h1: "Collision (example_routines sphere_contact) empty_heap 1 (SpherePtr 2) = Inr (Some 2, h1)"
    by blast
  note t1 = Colliding_iff_Collision [OF a b c d, of empty_heap 1 "SpherePtr 2",
      THEN conjunct2, THEN conjunct2, rule_format, of h1]
  note t2 = Colliding_iff_Collision [OF a b c d, of empty_heap 1 "AABBPtr 3",
      THEN conjunct2, THEN conjunct1, rule_format, of False empty_heap]
  have e: "\<exists>c. colls h1 2 = Some c \<and> Intersections c \<noteq> []"
    using h1 a b c d by (rule Collision_reports)
  then have col: "Colliding (example_routines sphere_contact) empty_heap 1 (SpherePtr 2) = Inr (True, h1)"
    using t1 h1 by simp
  have "Colliding (example_routines sphere_contact) empty_heap 1 (AABBPtr 3) = Inr (False, empty_heap)"
    using t2 n by simp
  then show ?thesis using a b c d h1 n col e by blast
qed

section \<open>Properties of the sweep query\<close>

lemma collect_collisions_total:
  assumes "\<forall>other\<in>set others. \<forall>h1. \<exists>r h2. test h1 other = Inr (r, h2)"
  shows "\<exists>found h1. collect_collisions test others h = Inr (found, h1)"
  using assms
proof (induction others arbitrary: h)
  case Nil
  show ?case by simp
next
  case (Cons other others)
  from Cons.prems obtain r h1 where t: "test h other = Inr (r, h1)"
    by (meson list.set_intros(1))
  from Cons.prems have "\<forall>other\<in>set others. \<forall>h1. \<exists>r h2. test h1 other = Inr (r, h2)"
    by simp
  from Cons.IH [OF this, of h1] obtain found h2 where
    "collect_collisions test others h1 = Inr (found, h2)" by blast
  with t show ?case by simp
qed

lemma collect_collisions_none:
  assumes "\<forall>other\<in>set others. \<forall>h1. \<exists>h2. test h1 other = Inr (None, h2)"
  shows "\<exists>h1. collect_collisions test others h = Inr ([], h1)"
  using assms
proof (induction others arbitrary: h)
  case Nil
  show ?case by simp
next
  case (Cons other others)
  from Cons.prems obtain h1 where t: "test h other = Inr (None, h1)"
    by (meson list.set_intros(1))
  from Cons.prems have "\<forall>other\<in>set others. \<forall>h1. \<exists>h2. test h1 other = Inr (None, h2)"
    by simp
  from Cons.IH [OF this, of h1] obtain h2 where
    "collect_collisions test others h1 = Inr ([], h2)" by blast
  with t show ?case by simp
qed

lemma example_test_sphere:
  "\<exists>h2. example_test h1 (CapsulePtr 0) d (SpherePtr s) = Inr (Some s, h2)"
  by (simp add: example_test_def Collision_def example_routines_def sphere_contact_def
        invert_intersection_def Vector_Invert_def MutableVector_Invert_def)

lemma example_test_other:
  "example_test h1 (CapsulePtr 0) d (AABBPtr s) = Inr (None, h1)"
  "example_test h1 (CapsulePtr 0) d (CapsulePtr s) = Inr (None, h1)"
  by (simp_all add: example_test_def Collision_def example_routines_def no_contact_def)

lemma example_test_returns:
  "\<exists>r h2. example_test h1 (CapsulePtr 0) d (SpherePtr s) = Inr (r, h2)"
  using example_test_sphere [of h1 d s] by blast

text \<open>C1. When no pairwise test panics, \<^verbatim>\<open>CollisionTest\<close> returns a sequence that
  holds exactly the collisions found for the candidates other than the capsule itself,
  in ascending order of distance; when the distances of the collisions found differ
  from one another, as for spheres placed at increasing distances, the order is
  strictly increasing.\<close>

theorem CollisionTest_sorted:
  assumes "never_panics test (CapsulePtr capsule) (Vec dx dy dz) others"
  shows "\<exists>cs found h1.
           CollisionTest (commonCollisionTest test distance) h capsule dx dy dz others
             = Inr (Some cs, h1)
         \<and> collect_collisions (\<lambda>h1 other. test h1 (CapsulePtr capsule) (Vec dx dy dz) other)
             (filter (\<lambda>other. other \<noteq> CapsulePtr capsule) others) h = Inr (found, h1)
         \<and> mset cs = mset found
         \<and> sorted (map (distance h1 (CapsulePtr capsule)) cs)
         \<and> (distinct (map (distance h1 (CapsulePtr capsule)) found) \<longrightarrow>
              sorted_wrt (<) (map (distance h1 (CapsulePtr capsule)) cs))"
proof -
  let ?t = "\<lambda>h1 other. test h1 (CapsulePtr capsule) (Vec dx dy dz) other"
  let ?os = "filter (\<lambda>other. other \<noteq> CapsulePtr capsule) others"
  have "\<forall>other\<in>set ?os. \<forall>h1. \<exists>r h2. ?t h1 other = Inr (r, h2)"
    using assms by (simp add: never_panics_def)
  from collect_collisions_total [OF this, of h] obtain found h1 where
    f: "collect_collisions ?t ?os h = Inr (found, h1)" by blast
  let ?k = "distance h1 (CapsulePtr capsule)"
  let ?cs = "sort_key ?k found"
  have r: "CollisionTest (commonCollisionTest test distance) h capsule dx dy dz others
             = Inr (Some ?cs, h1)"
    using f by (simp add: CollisionTest_def commonCollisionTest_def)
  have m: "mset ?cs = mset found" by simp
  have s: "sorted (map ?k ?cs)" by (rule sorted_sort_key)
  have "sorted_wrt (<) (map ?k ?cs)" if "distinct (map ?k found)"
  proof -
    have "mset (map ?k ?cs) = mset (map ?k found)" by simp
    then have "distinct (map ?k ?cs)"
      using that by (metis mset_eq_imp_distinct_iff)
    with s show ?thesis by (simp add: strict_sorted_iff)
  qed
  with r f m s show ?thesis by blast
qed

theorem CollisionTest_sorted_witness:
  "never_panics example_test (CapsulePtr 0) (Vec 0 0 1)
     [SpherePtr 3, SpherePtr 1, CapsulePtr 0, SpherePtr 2]
   \<and> (\<exists>cs found h1.
         CollisionTest (commonCollisionTest example_test example_distance) empty_heap 0 0 0 1
           [SpherePtr 3, SpherePtr 1, CapsulePtr 0, SpherePtr 2] = Inr (Some cs, h1)
       \<and> collect_collisions (\<lambda>h1 other. example_test h1 (CapsulePtr 0) (Vec 0 0 1) other)
           (filter (\<lambda>other. other \<noteq> CapsulePtr 0)
              [SpherePtr 3, SpherePtr 1, CapsulePtr 0, SpherePtr 2]) empty_heap = Inr (found, h1)
       \<and> mset cs = mset found
       \<and> sorted (map (example_distance h1 (CapsulePtr 0)) cs)
       \<and> (distinct (map (example_distance h1 (CapsulePtr 0)) found) \<longrightarrow>
            sorted_wrt (<) (map (example_distance h1 (CapsulePtr 0)) cs)))
   \<and> (\<exists>h1. CollisionTest (commonCollisionTest example_test example_distance) empty_heap 0 0 0 1
             [SpherePtr 3, SpherePtr 1, CapsulePtr 0, SpherePtr 2] = Inr (Some [1, 2, 3], h1))"
proof -
  have hyp: "never_panics example_test (CapsulePtr 0) (Vec 0 0 1)
               [SpherePtr 3, SpherePtr 1, CapsulePtr 0, SpherePtr 2]"
    by (simp add: never_panics_def example_test_other example_test_returns)
  have ev: "\<exists>h1. CollisionTest (commonCollisionTest example_test example_distance) empty_heap 0 0 0 1
             [SpherePtr 3, SpherePtr 1, CapsulePtr 0, SpherePtr 2] = Inr (Some [1, 2, 3], h1)"
    by (simp add: CollisionTest_def commonCollisionTest_def example_test_def Collision_def
          example_routines_def sphere_contact_def empty_heap_def example_distance_def
          invert_intersection_def Vector_Invert_def MutableVector_Invert_def)
  show ?thesis
    using hyp ev
      CollisionTest_sorted [where test = example_test and capsule = 0 and dx = 0 and dy = 0
        and dz = 1 and others = "[SpherePtr 3, SpherePtr 1, CapsulePtr 0, SpherePtr 2]"
        and distance = example_distance and h = empty_heap]
    by blast
qed

text \<open>C8. When every candidate other than the capsule tests to nil, \<^verbatim>\<open>CollisionTest\<close>
  returns the empty sequence, not nil.\<close>

theorem CollisionTest_empty:
  assumes "all_miss test (CapsulePtr capsule) (Vec dx dy dz) others"
  shows "\<exists>h1. CollisionTest (commonCollisionTest test distance) h capsule dx dy dz others
                 = Inr (Some [], h1)"
proof -
  let ?t = "\<lambda>h1 other. test h1 (CapsulePtr capsule) (Vec dx dy dz) other"
  let ?os = "filter (\<lambda>other. other \<noteq> CapsulePtr capsule) others"
  have "\<forall>other\<in>set ?os. \<forall>h1. \<exists>h2. ?t h1 other = Inr (None, h2)"
    using assms by (simp add: all_miss_def)
  from collect_collisions_none [OF this, of h] obtain h1 where
    "collect_collisions ?t ?os h = Inr ([], h1)" by blast
  then show ?thesis
    by (simp add: CollisionTest_def commonCollisionTest_def)
qed

theorem CollisionTest_empty_witness:
  "all_miss example_test (CapsulePtr 0) (Vec 0 0 1) [AABBPtr 3, CapsulePtr 0, CapsulePtr 2]
   \<and> (\<exists>h1. CollisionTest (commonCollisionTest example_test example_distance) empty_heap 0 0 0 1
             [AABBPtr 3, CapsulePtr 0, CapsulePtr 2] = Inr (Some [], h1))"
proof -
  have hyp: "all_miss example_test (CapsulePtr 0) (Vec 0 0 1)
               [AABBPtr 3, CapsulePtr 0, CapsulePtr 2]"
    by (simp add: all_miss_def example_test_other)
  show ?thesis
    using hyp
      CollisionTest_empty [where test = example_test and capsule = 0 and dx = 0 and dy = 0
        and dz = 1 and others = "[AABBPtr 3, CapsulePtr 0, CapsulePtr 2]"
        and distance = example_distance and h = empty_heap]
    by blast
qed

end
